theory Spec2Isabelle
  imports Main "HOL-Library.Sublist" "HOL-Library.Word"
begin

section \<open>Values shared by the two servers\<close>

text \<open>
  The repository holds two Fastify servers over one MinIO bucket: \<open>index.js\<close>, which
  streams uploads and downloads through the server (the streaming-proxy variant), and a
  second file (\<open>part_000\<close>), which hands out pre-signed URLs and keeps an in-memory list
  of posts (the direct-upload variant). Definitions translated from the second file carry
  the suffix \<open>_direct\<close>.
\<close>

type_synonym bytes = "8 word list"

text \<open>
  JavaScript values as they appear in request bodies and in the objects the handlers
  return. \<open>JDate\<close> holds a \<open>Date\<close> as milliseconds since the epoch.
\<close>

datatype json =
    JUndefined
  | JNull
  | JBool bool
  | JNum nat
  | JStr string
  | JDate nat
  | JArr "json list"
  | JObj "(string \<times> json) list"

text \<open>Property access \<open>v.k\<close>: \<open>undefined\<close> when the property is not there.\<close>

fun getProp :: "json \<Rightarrow> string \<Rightarrow> json" where
  "getProp (JObj fs) k = (case map_of fs k of Some v \<Rightarrow> v | None \<Rightarrow> JUndefined)"
| "getProp _ k = JUndefined"

text \<open>What a \<open>catch\<close> clause sees of a thrown value: its \<open>code\<close> property, if any.\<close>

datatype error = Error (code: "string option")

datatype body = Json json | Stream bytes

record reply =
  statusCode :: nat
  headers :: "(string \<times> string) list"
  payload :: body

text \<open>\<open>return obj\<close> from a handler answers 200; \<open>reply.code(n).send(obj)\<close> answers \<open>n\<close>.\<close>

definition send :: "nat \<Rightarrow> json \<Rightarrow> reply" where
  "send n obj = \<lparr>statusCode = n, headers = [], payload = Json obj\<rparr>"

definition errorBody :: "string \<Rightarrow> json" where
  "errorBody msg = JObj [(''error'', JStr msg)]"

definition BUCKET_NAME :: string where
  "BUCKET_NAME = ''my-bucket''"

subsection \<open>Numbers in template strings\<close>

definition digitChar :: "nat \<Rightarrow> char" where
  "digitChar d = ''0123456789'' ! d"

fun decimal :: "nat \<Rightarrow> string" where
  "decimal n = (if n < 10 then [digitChar n] else decimal (n div 10) @ [digitChar (n mod 10)])"

declare decimal.simps [simp del]

text \<open>
  \<open>a || b\<close> where \<open>a\<close> is a string or \<open>undefined\<close>: the empty string is falsy, as
  \<open>undefined\<close> is.
\<close>

definition orElse :: "string option \<Rightarrow> string \<Rightarrow> string" where
  "orElse v d = (case v of None \<Rightarrow> d | Some x \<Rightarrow> if x = [] then d else x)"

section \<open>The object store client\<close>

text \<open>
  The MinIO client is a library outside the repository. The handlers are written
  against its interface, so the model takes the client as a parameter: a record of
  operations over a store state \<open>'st\<close>. A call either throws (\<open>Inl\<close>) or returns; the
  three calls that write return the new state, and a write that throws leaves the state
  as it was. \<open>listObjects\<close> returns a stream: the objects it yields and, possibly, the
  error that ends it.
\<close>

type_synonym metaData = "(string \<times> string) list"

record bucketItemStat =
  stat_size :: nat
  stat_metaData :: metaData

record bucketItem =
  item_name :: string
  item_size :: nat
  item_lastModified :: nat

record 'st client =
  bucketExists :: "'st \<Rightarrow> string \<Rightarrow> error + bool"
  makeBucket :: "'st \<Rightarrow> string \<Rightarrow> string \<Rightarrow> error + 'st"
  putObject :: "'st \<Rightarrow> string \<Rightarrow> string \<Rightarrow> bytes \<Rightarrow> metaData option \<Rightarrow> error + 'st"
  getObject :: "'st \<Rightarrow> string \<Rightarrow> string \<Rightarrow> error + bytes"
  statObject :: "'st \<Rightarrow> string \<Rightarrow> string \<Rightarrow> error + bucketItemStat"
  listObjects :: "'st \<Rightarrow> string \<Rightarrow> string \<Rightarrow> bool \<Rightarrow> bucketItem list \<times> error option"
  removeObject :: "'st \<Rightarrow> string \<Rightarrow> string \<Rightarrow> error + 'st"
  presignedPutObject :: "'st \<Rightarrow> string \<Rightarrow> string \<Rightarrow> nat \<Rightarrow> error + string"
  presignedGetObject :: "'st \<Rightarrow> string \<Rightarrow> string \<Rightarrow> nat \<Rightarrow> error + string"

text \<open>
  The calls a handler issues, in order, are part of its result, so that a theorem can
  say which calls were made and which were not.
\<close>

datatype call =
    BucketExists string
  | MakeBucket string string
  | PutObject string string bytes "metaData option"
  | GetObject string string
  | StatObject string string
  | ListObjects string string bool
  | RemoveObject string string
  | PresignedPutObject string string nat
  | PresignedGetObject string string nat

record 'st outcome =
  response :: reply
  store :: 'st
  calls :: "call list"

section \<open>The streaming-proxy server (\<open>index.js\<close>)\<close>

text \<open>
  Each handler is a function of the client, the store state before the request and the
  request's inputs. The \<open>console.error\<close> lines of the handlers' \<open>catch\<close> clauses are
  not part of the model; those of \<open>ensureBucket\<close> are.
\<close>

subsection \<open>\<open>POST /upload\<close>\<close>

text \<open>
  What \<open>request.file()\<close> gives the handler: it throws, returns \<open>undefined\<close> (no file
  part), or returns the part with its \<open>filename\<close>, \<open>mimetype\<close> and \<open>file\<close> stream (\<open>fileStream\<close>).
  \<open>Date.now()\<close> is the argument \<open>now\<close>.
\<close>

record multipartFile =
  filename :: string
  mimetype :: string
  fileStream :: bytes

definition uniqueFilename :: "nat \<Rightarrow> string \<Rightarrow> string" where
  "uniqueFilename now name = decimal now @ ''-'' @ name"

definition upload ::
  "'st client \<Rightarrow> 'st \<Rightarrow> nat \<Rightarrow> error + multipartFile option \<Rightarrow> 'st outcome" where
  "upload c s now req =
     (case req of
        Inl err \<Rightarrow>
          \<lparr>response = send 500 (errorBody ''Failed to upload file''), store = s, calls = []\<rparr>
      | Inr None \<Rightarrow>
          \<lparr>response = send 400 (errorBody ''No file uploaded''), store = s, calls = []\<rparr>
      | Inr (Some data) \<Rightarrow>
          (let key = uniqueFilename now (filename data);
               issued = [PutObject BUCKET_NAME key (fileStream data) None]
           in case putObject c s BUCKET_NAME key (fileStream data) None of
                Inl err \<Rightarrow>
                  \<lparr>response = send 500 (errorBody ''Failed to upload file''),
                   store = s, calls = issued\<rparr>
              | Inr s' \<Rightarrow>
                  \<lparr>response = send 200 (JObj
                     [(''success'', JBool True),
                      (''message'', JStr ''File uploaded successfully''),
                      (''filename'', JStr key),
                      (''originalName'', JStr (filename data)),
                      (''mimetype'', JStr (mimetype data))]),
                   store = s', calls = issued\<rparr>))"

subsection \<open>\<open>GET /file/:filename\<close>\<close>

definition getFileCatch :: "error \<Rightarrow> reply" where
  "getFileCatch err =
     (if code err = Some ''NoSuchKey'' then send 404 (errorBody ''File not found'')
      else send 500 (errorBody ''Failed to retrieve file''))"

definition contentDisposition :: "metaData \<Rightarrow> (string \<times> string) list" where
  "contentDisposition md =
     (case map_of md ''x-amz-meta-original-name'' of
        None \<Rightarrow> []
      | Some name \<Rightarrow>
          if name = [] then []
          else [(''Content-Disposition'',
                 ''attachment; filename='' @ [CHR 0x22] @ name @ [CHR 0x22])])"

definition getFile :: "'st client \<Rightarrow> 'st \<Rightarrow> string \<Rightarrow> 'st outcome" where
  "getFile c s name =
     (case getObject c s BUCKET_NAME name of
        Inl err \<Rightarrow>
          \<lparr>response = getFileCatch err, store = s, calls = [GetObject BUCKET_NAME name]\<rparr>
      | Inr dataStream \<Rightarrow>
          (case statObject c s BUCKET_NAME name of
             Inl err \<Rightarrow>
               \<lparr>response = getFileCatch err, store = s,
                calls = [GetObject BUCKET_NAME name, StatObject BUCKET_NAME name]\<rparr>
           | Inr stat \<Rightarrow>
               \<lparr>response =
                  \<lparr>statusCode = 200,
                   headers =
                     [(''content-type'',
                       orElse (map_of (stat_metaData stat) ''content-type'')
                         ''application/octet-stream''),
                      (''Content-Length'', decimal (stat_size stat))]
                     @ contentDisposition (stat_metaData stat),
                   payload = Stream dataStream\<rparr>,
                store = s,
                calls = [GetObject BUCKET_NAME name, StatObject BUCKET_NAME name]\<rparr>))"

subsection \<open>\<open>GET /files\<close>\<close>

definition fullEntry :: "bucketItem \<Rightarrow> bucketItemStat \<Rightarrow> json" where
  "fullEntry obj stat = JObj
     [(''name'', JStr (item_name obj)),
      (''originalName'',
       JStr (orElse (map_of (stat_metaData stat) ''x-amz-meta-original-name'') (item_name obj))),
      (''size'', JNum (item_size obj)),
      (''lastModified'', JDate (item_lastModified obj)),
      (''contentType'',
       (case map_of (stat_metaData stat) ''content-type'' of
          None \<Rightarrow> JUndefined | Some t \<Rightarrow> JStr t))]"

definition basicEntry :: "bucketItem \<Rightarrow> json" where
  "basicEntry obj = JObj
     [(''name'', JStr (item_name obj)),
      (''size'', JNum (item_size obj)),
      (''lastModified'', JDate (item_lastModified obj))]"

text \<open>
  The body of the \<open>for await\<close> loop: one \<open>statObject\<close> per object, in a \<open>try\<close> of its
  own, and the entry pushed onto \<open>objectsList\<close> either way.
\<close>

definition listEntry :: "'st client \<Rightarrow> 'st \<Rightarrow> bucketItem \<Rightarrow> json" where
  "listEntry c s obj =
     (case statObject c s BUCKET_NAME (item_name obj) of
        Inr stat \<Rightarrow> fullEntry obj stat
      | Inl err \<Rightarrow> basicEntry obj)"

fun listLoop :: "'st client \<Rightarrow> 'st \<Rightarrow> bucketItem list \<Rightarrow> json list \<Rightarrow> json list" where
  "listLoop c s [] objectsList = objectsList"
| "listLoop c s (obj # rest) objectsList =
     listLoop c s rest (objectsList @ [listEntry c s obj])"

text \<open>The handler answers only after the stream has ended.\<close>

definition listFiles :: "'st client \<Rightarrow> 'st \<Rightarrow> 'st outcome" where
  "listFiles c s =
     (let stream = listObjects c s BUCKET_NAME [] True;
          objectsList = listLoop c s (fst stream) [];
          issued = ListObjects BUCKET_NAME [] True
                   # map (\<lambda>obj. StatObject BUCKET_NAME (item_name obj)) (fst stream)
      in case snd stream of
           Some err \<Rightarrow>
             \<lparr>response = send 500 (errorBody ''Failed to list files''),
              store = s, calls = issued\<rparr>
         | None \<Rightarrow>
             \<lparr>response = send 200 (JObj
                [(''bucket'', JStr BUCKET_NAME),
                 (''files'', JArr objectsList),
                 (''count'', JNum (length objectsList))]),
              store = s, calls = issued\<rparr>)"

subsection \<open>\<open>DELETE /file/:filename\<close>\<close>

definition deleteFileCatch :: "error \<Rightarrow> reply" where
  "deleteFileCatch err =
     (if code err = Some ''NoSuchKey'' then send 404 (errorBody ''File not found'')
      else send 500 (errorBody ''Failed to delete file''))"

definition deleteFile :: "'st client \<Rightarrow> 'st \<Rightarrow> string \<Rightarrow> 'st outcome" where
  "deleteFile c s name =
     (case statObject c s BUCKET_NAME name of
        Inl err \<Rightarrow>
          \<lparr>response = deleteFileCatch err, store = s, calls = [StatObject BUCKET_NAME name]\<rparr>
      | Inr stat \<Rightarrow>
          (case removeObject c s BUCKET_NAME name of
             Inl err \<Rightarrow>
               \<lparr>response = deleteFileCatch err, store = s,
                calls = [StatObject BUCKET_NAME name, RemoveObject BUCKET_NAME name]\<rparr>
           | Inr s' \<Rightarrow>
               \<lparr>response = send 200 (JObj
                  [(''success'', JBool True),
                   (''message'', JStr (''File '' @ [CHR 0x27] @ name @ [CHR 0x27]
                                      @ '' deleted successfully''))]),
                store = s',
                calls = [StatObject BUCKET_NAME name, RemoveObject BUCKET_NAME name]\<rparr>))"

subsection \<open>\<open>GET /upload-url/:filename\<close>\<close>

definition uploadUrl :: "'st client \<Rightarrow> 'st \<Rightarrow> string \<Rightarrow> 'st outcome" where
  "uploadUrl c s name =
     (let expiry = 24 * 60 * 60;
          issued = [PresignedPutObject BUCKET_NAME name expiry]
      in case presignedPutObject c s BUCKET_NAME name expiry of
           Inl err \<Rightarrow>
             \<lparr>response = send 500 (errorBody ''Failed to generate upload URL''),
              store = s, calls = issued\<rparr>
         | Inr presignedUrl \<Rightarrow>
             \<lparr>response = send 200 (JObj
                [(''uploadUrl'', JStr presignedUrl),
                 (''filename'', JStr name),
                 (''expiresIn'', JNum expiry)]),
              store = s, calls = issued\<rparr>)"

subsection \<open>Startup\<close>

datatype consoleLine =
    ConsoleLog string
  | ConsoleError string error
  | LoggerError error

text \<open>
  What \<open>ensureBucket\<close> leaves behind: the error it threw to its caller, if any, the
  store, the console lines and the calls.
\<close>

record 'st provisioned =
  thrown :: "error option"
  bucketStore :: 'st
  console :: "consoleLine list"
  bucketCalls :: "call list"

text \<open>In \<open>index.js\<close> the whole of \<open>ensureBucket\<close> is inside a \<open>try\<close> whose \<open>catch\<close> logs.\<close>

definition ensureBucket :: "'st client \<Rightarrow> 'st \<Rightarrow> 'st provisioned" where
  "ensureBucket c s =
     (case bucketExists c s BUCKET_NAME of
        Inl err \<Rightarrow>
          \<lparr>thrown = None, bucketStore = s,
           console = [ConsoleError ''Error with bucket:'' err],
           bucketCalls = [BucketExists BUCKET_NAME]\<rparr>
      | Inr exists \<Rightarrow>
          if \<not> exists then
            (case makeBucket c s BUCKET_NAME ''us-east-1'' of
               Inl err \<Rightarrow>
                 \<lparr>thrown = None, bucketStore = s,
                  console = [ConsoleError ''Error with bucket:'' err],
                  bucketCalls = [BucketExists BUCKET_NAME, MakeBucket BUCKET_NAME ''us-east-1'']\<rparr>
             | Inr s' \<Rightarrow>
                 \<lparr>thrown = None, bucketStore = s',
                  console = [ConsoleLog (''Bucket '' @ [CHR 0x27] @ BUCKET_NAME @ [CHR 0x27]
                                         @ '' created successfully'')],
                  bucketCalls = [BucketExists BUCKET_NAME, MakeBucket BUCKET_NAME ''us-east-1'']\<rparr>)
          else
            \<lparr>thrown = None, bucketStore = s,
             console = [ConsoleLog (''Bucket '' @ [CHR 0x27] @ BUCKET_NAME @ [CHR 0x27]
                                    @ '' already exists'')],
             bucketCalls = [BucketExists BUCKET_NAME]\<rparr>)"

text \<open>
  How \<open>start()\<close> ends: the server listens, the process exits with a code, or the promise
  of \<open>start()\<close> is rejected with nothing to handle it. \<open>listened\<close> says whether
  \<open>fastify.listen\<close> was called at all; its result is the argument \<open>listen\<close>.
\<close>

datatype process = Listening | Exited nat | Unhandled error

record 'st started =
  process :: process
  listened :: bool
  startStore :: 'st
  startConsole :: "consoleLine list"
  startCalls :: "call list"

definition start :: "'st client \<Rightarrow> 'st \<Rightarrow> error + unit \<Rightarrow> 'st started" where
  "start c s listen =
     (let b = ensureBucket c s in
      case thrown b of
        Some err \<Rightarrow>
          \<lparr>process = Exited 1, listened = False, startStore = bucketStore b,
           startConsole = console b @ [LoggerError err], startCalls = bucketCalls b\<rparr>
      | None \<Rightarrow>
          (case listen of
             Inl err \<Rightarrow>
               \<lparr>process = Exited 1, listened = True, startStore = bucketStore b,
                startConsole = console b @ [LoggerError err], startCalls = bucketCalls b\<rparr>
           | Inr u \<Rightarrow>
               \<lparr>process = Listening, listened = True, startStore = bucketStore b,
                startConsole = console b @
                  [ConsoleLog ''Server is running on http://localhost:3000'',
                   ConsoleLog ''Available endpoints:'',
                   ConsoleLog ''  POST /upload - Upload a file'',
                   ConsoleLog ''  GET /file/:filename - Download a file'',
                   ConsoleLog ''  GET /files - List all files'',
                   ConsoleLog ''  DELETE /file/:filename - Delete a file'',
                   ConsoleLog ''  GET /upload-url/:filename - Get presigned upload URL'',
                   ConsoleLog ''  GET /health - Health check''],
                startCalls = bucketCalls b\<rparr>))"

section \<open>The direct-upload server (\<open>part_000\<close>)\<close>

text \<open>Here \<open>ensureBucket\<close> has no \<open>try\<close>: what the client throws, it throws.\<close>

definition ensureBucket_direct :: "'st client \<Rightarrow> 'st \<Rightarrow> 'st provisioned" where
  "ensureBucket_direct c s =
     (case bucketExists c s BUCKET_NAME of
        Inl err \<Rightarrow>
          \<lparr>thrown = Some err, bucketStore = s, console = [],
           bucketCalls = [BucketExists BUCKET_NAME]\<rparr>
      | Inr exists \<Rightarrow>
          if \<not> exists then
            (case makeBucket c s BUCKET_NAME ''us-east-1'' of
               Inl err \<Rightarrow>
                 \<lparr>thrown = Some err, bucketStore = s, console = [],
                  bucketCalls = [BucketExists BUCKET_NAME, MakeBucket BUCKET_NAME ''us-east-1'']\<rparr>
             | Inr s' \<Rightarrow>
                 \<lparr>thrown = None, bucketStore = s',
                  console = [ConsoleLog (''Bucket '' @ [CHR 0x27] @ BUCKET_NAME @ [CHR 0x27]
                                         @ '' created'')],
                  bucketCalls = [BucketExists BUCKET_NAME, MakeBucket BUCKET_NAME ''us-east-1'']\<rparr>)
          else
            \<lparr>thrown = None, bucketStore = s, console = [],
             bucketCalls = [BucketExists BUCKET_NAME]\<rparr>)"

text \<open>\<open>start\<close> has no \<open>try\<close> either, and \<open>start()\<close> is called with no handler attached.\<close>

definition start_direct :: "'st client \<Rightarrow> 'st \<Rightarrow> error + unit \<Rightarrow> 'st started" where
  "start_direct c s listen =
     (let b = ensureBucket_direct c s in
      case thrown b of
        Some err \<Rightarrow>
          \<lparr>process = Unhandled err, listened = False, startStore = bucketStore b,
           startConsole = console b, startCalls = bucketCalls b\<rparr>
      | None \<Rightarrow>
          (case listen of
             Inl err \<Rightarrow>
               \<lparr>process = Unhandled err, listened = True, startStore = bucketStore b,
                startConsole = console b, startCalls = bucketCalls b\<rparr>
           | Inr u \<Rightarrow>
               \<lparr>process = Listening, listened = True, startStore = bucketStore b,
                startConsole = console b
                  @ [ConsoleLog ''Server running on http://localhost:3000''],
                startCalls = bucketCalls b\<rparr>))"

subsection \<open>\<open>GET /upload-url/:filename\<close> and \<open>GET /download-url/:fileKey\<close>\<close>

definition uploadUrl_direct :: "'st client \<Rightarrow> 'st \<Rightarrow> string \<Rightarrow> 'st outcome" where
  "uploadUrl_direct c s name =
     (let expiry = 60 * 5;
          issued = [PresignedPutObject BUCKET_NAME name expiry]
      in case presignedPutObject c s BUCKET_NAME name expiry of
           Inl err \<Rightarrow>
             \<lparr>response = send 500 (errorBody ''Failed to create presigned URL''),
              store = s, calls = issued\<rparr>
         | Inr presignedUrl \<Rightarrow>
             \<lparr>response = send 200 (JObj
                [(''uploadUrl'', JStr presignedUrl),
                 (''fileKey'', JStr name),
                 (''expiresIn'', JNum expiry)]),
              store = s, calls = issued\<rparr>)"

definition downloadUrl :: "'st client \<Rightarrow> 'st \<Rightarrow> string \<Rightarrow> 'st outcome" where
  "downloadUrl c s fileKey =
     (case presignedGetObject c s BUCKET_NAME fileKey (60 * 5) of
        Inl err \<Rightarrow>
          \<lparr>response = send 500 (errorBody ''Failed to get download URL''),
           store = s, calls = [PresignedGetObject BUCKET_NAME fileKey (60 * 5)]\<rparr>
      | Inr url \<Rightarrow>
          \<lparr>response = send 200 (JObj [(''url'', JStr url)]),
           store = s, calls = [PresignedGetObject BUCKET_NAME fileKey (60 * 5)]\<rparr>)"

subsection \<open>\<open>POST /posts\<close> and \<open>GET /posts\<close>\<close>

text \<open>
  The array \<open>posts\<close> is the state. Destructuring \<open>req.body\<close> throws when the body is
  \<open>undefined\<close> or \<open>null\<close>; the handler has no \<open>try\<close>, so the framework answers 500 (its
  payload carries the engine's message as well, left out here). Any other body gives the
  three properties, each \<open>undefined\<close> where the body has none.
\<close>

definition postObject :: "nat \<Rightarrow> json \<Rightarrow> json" where
  "postObject n reqBody = JObj
     [(''id'', JNum n),
      (''title'', getProp reqBody ''title''),
      (''description'', getProp reqBody ''description''),
      (''fileKey'', getProp reqBody ''fileKey'')]"

definition createPost :: "json list \<Rightarrow> json \<Rightarrow> reply \<times> json list" where
  "createPost posts reqBody =
     (if reqBody = JUndefined \<or> reqBody = JNull then
        (send 500 (JObj [(''statusCode'', JNum 500), (''error'', JStr ''Internal Server Error'')]),
         posts)
      else
        (let post = postObject (length posts + 1) reqBody
         in (send 200 (JObj
               [(''success'', JBool True),
                (''message'', JStr ''Post created''),
                (''post'', post)]),
             posts @ [post])))"

definition listPosts :: "json list \<Rightarrow> reply" where
  "listPosts posts = send 200 (JArr posts)"

text \<open>A run of \<open>POST /posts\<close> requests, one after the other, from a given array.\<close>

fun createPosts :: "json list \<Rightarrow> json list \<Rightarrow> json list" where
  "createPosts posts [] = posts"
| "createPosts posts (reqBody # rest) = createPosts (snd (createPost posts reqBody)) rest"

section \<open>A reference client: one store in memory\<close>

text \<open>
  A client to run the handlers on: objects in a list keyed by bucket and key, in the
  order they were first written. \<open>faults\<close> makes chosen calls throw chosen errors.
  Without a fault it answers as the MinIO JavaScript client does for well-formed
  (non-empty) keys; that library is outside the repository:
  \<^item> \<open>getObject\<close> on a key that is not there throws with the code \<open>NoSuchKey\<close>;
  \<^item> \<open>statObject\<close> is a HEAD request, which has no error body: on a key that is not
    there it throws with the code \<open>NotFound\<close>;
  \<^item> \<open>statObject\<close> returns the object's metadata with the prefix \<open>x-amz-meta-\<close>
    taken off the keys of user metadata;
  \<^item> removing a key that is not there succeeds silently;
  \<^item> an object put without metadata carries only the content type the store gives by
    default, if it gives one.
\<close>

record storedObject =
  content :: bytes
  objMetaData :: metaData
  lastModified :: nat

record memStore =
  buckets :: "string list"
  objects :: "((string \<times> string) \<times> storedObject) list"
  faults :: "(call \<times> error) list"
  defaultType :: "string option"
  clock :: nat

definition memBucketExists :: "memStore \<Rightarrow> string \<Rightarrow> error + bool" where
  "memBucketExists s b =
     (case map_of (faults s) (BucketExists b) of
        Some e \<Rightarrow> Inl e
      | None \<Rightarrow> Inr (b \<in> set (buckets s)))"

definition memMakeBucket :: "memStore \<Rightarrow> string \<Rightarrow> string \<Rightarrow> error + memStore" where
  "memMakeBucket s b region =
     (case map_of (faults s) (MakeBucket b region) of
        Some e \<Rightarrow> Inl e
      | None \<Rightarrow>
          if b \<in> set (buckets s) then Inl (Error (Some ''BucketAlreadyOwnedByYou''))
          else Inr (s\<lparr>buckets := buckets s @ [b]\<rparr>))"

fun putEntry :: "'k \<Rightarrow> 'v \<Rightarrow> ('k \<times> 'v) list \<Rightarrow> ('k \<times> 'v) list" where
  "putEntry k v [] = [(k, v)]"
| "putEntry k v (p # ps) = (if fst p = k then (k, v) # ps else p # putEntry k v ps)"

definition memPutObject ::
  "memStore \<Rightarrow> string \<Rightarrow> string \<Rightarrow> bytes \<Rightarrow> metaData option \<Rightarrow> error + memStore" where
  "memPutObject s b k data md =
     (case map_of (faults s) (PutObject b k data md) of
        Some e \<Rightarrow> Inl e
      | None \<Rightarrow>
          if b \<notin> set (buckets s) then Inl (Error (Some ''NoSuchBucket''))
          else Inr (s\<lparr>objects := putEntry (b, k)
                 \<lparr>content = data,
                  objMetaData =
                    (case md of
                       Some m \<Rightarrow> m
                     | None \<Rightarrow>
                         (case defaultType s of
                            None \<Rightarrow> []
                          | Some t \<Rightarrow> [(''content-type'', t)])),
                  lastModified = clock s\<rparr>
                 (objects s)\<rparr>))"

definition memGetObject :: "memStore \<Rightarrow> string \<Rightarrow> string \<Rightarrow> error + bytes" where
  "memGetObject s b k =
     (case map_of (faults s) (GetObject b k) of
        Some e \<Rightarrow> Inl e
      | None \<Rightarrow>
          if b \<notin> set (buckets s) then Inl (Error (Some ''NoSuchBucket''))
          else (case map_of (objects s) (b, k) of
                  None \<Rightarrow> Inl (Error (Some ''NoSuchKey''))
                | Some ob \<Rightarrow> Inr (content ob)))"

definition stripMetaPrefix :: "string \<Rightarrow> string" where
  "stripMetaPrefix k = (if prefix ''x-amz-meta-'' k then drop 11 k else k)"

definition memStatObject :: "memStore \<Rightarrow> string \<Rightarrow> string \<Rightarrow> error + bucketItemStat" where
  "memStatObject s b k =
     (case map_of (faults s) (StatObject b k) of
        Some e \<Rightarrow> Inl e
      | None \<Rightarrow>
          if b \<notin> set (buckets s) then Inl (Error (Some ''NotFound''))
          else (case map_of (objects s) (b, k) of
                  None \<Rightarrow> Inl (Error (Some ''NotFound''))
                | Some ob \<Rightarrow>
                    Inr \<lparr>stat_size = length (content ob),
                         stat_metaData =
                           map (\<lambda>(name, v). (stripMetaPrefix name, v)) (objMetaData ob)\<rparr>))"

definition memListObjects ::
  "memStore \<Rightarrow> string \<Rightarrow> string \<Rightarrow> bool \<Rightarrow> bucketItem list \<times> error option" where
  "memListObjects s b pre recursive =
     (case map_of (faults s) (ListObjects b pre recursive) of
        Some e \<Rightarrow> ([], Some e)
      | None \<Rightarrow>
          if b \<notin> set (buckets s) then ([], Some (Error (Some ''NoSuchBucket'')))
          else (map (\<lambda>(bk, ob).
                       \<lparr>item_name = snd bk, item_size = length (content ob),
                        item_lastModified = lastModified ob\<rparr>)
                  (filter (\<lambda>(bk, ob). fst bk = b \<and> prefix pre (snd bk)) (objects s)),
                None))"

definition memRemoveObject :: "memStore \<Rightarrow> string \<Rightarrow> string \<Rightarrow> error + memStore" where
  "memRemoveObject s b k =
     (case map_of (faults s) (RemoveObject b k) of
        Some e \<Rightarrow> Inl e
      | None \<Rightarrow>
          if b \<notin> set (buckets s) then Inl (Error (Some ''NoSuchBucket''))
          else Inr (s\<lparr>objects := filter (\<lambda>(bk, ob). bk \<noteq> (b, k)) (objects s)\<rparr>))"

definition memPresigned :: "string \<Rightarrow> string \<Rightarrow> string \<Rightarrow> nat \<Rightarrow> string" where
  "memPresigned method b k expiry =
     ''http://localhost:9000/'' @ b @ ''/'' @ k @ ''?X-Amz-Expires='' @ decimal expiry
       @ ''&X-Amz-Method='' @ method"

definition memPresignedPutObject ::
  "memStore \<Rightarrow> string \<Rightarrow> string \<Rightarrow> nat \<Rightarrow> error + string" where
  "memPresignedPutObject s b k expiry =
     (case map_of (faults s) (PresignedPutObject b k expiry) of
        Some e \<Rightarrow> Inl e
      | None \<Rightarrow> Inr (memPresigned ''PUT'' b k expiry))"

definition memPresignedGetObject ::
  "memStore \<Rightarrow> string \<Rightarrow> string \<Rightarrow> nat \<Rightarrow> error + string" where
  "memPresignedGetObject s b k expiry =
     (case map_of (faults s) (PresignedGetObject b k expiry) of
        Some e \<Rightarrow> Inl e
      | None \<Rightarrow> Inr (memPresigned ''GET'' b k expiry))"

definition memClient :: "memStore client" where
  "memClient =
     \<lparr>bucketExists = memBucketExists,
      makeBucket = memMakeBucket,
      putObject = memPutObject,
      getObject = memGetObject,
      statObject = memStatObject,
      listObjects = memListObjects,
      removeObject = memRemoveObject,
      presignedPutObject = memPresignedPutObject,
      presignedGetObject = memPresignedGetObject\<rparr>"

text \<open>An empty bucket \<open>my-bucket\<close>, no faults, no default content type.\<close>

definition emptyStore :: memStore where
  "emptyStore =
     \<lparr>buckets = [BUCKET_NAME], objects = [], faults = [], defaultType = None, clock = 0\<rparr>"

text \<open>The upload of the scenario: \<open>a.txt\<close>, \<open>text/plain\<close>, content \<open>hi\<close>.\<close>

definition aTxt :: multipartFile where
  "aTxt = \<lparr>filename = ''a.txt'', mimetype = ''text/plain'', fileStream = [0x68, 0x69]\<rparr>"

text \<open>Stores to run the handlers on.\<close>

definition plainStore :: memStore where
  "plainStore = emptyStore\<lparr>objects :=
     [((BUCKET_NAME, ''k''), \<lparr>content = [1, 2, 3], objMetaData = [], lastModified = 7\<rparr>)]\<rparr>"

definition deniedStore :: memStore where
  "deniedStore = emptyStore\<lparr>faults :=
     [(GetObject BUCKET_NAME ''k'', Error (Some ''AccessDenied''))]\<rparr>"

definition statDeniedStore :: memStore where
  "statDeniedStore = plainStore\<lparr>faults :=
     [(StatObject BUCKET_NAME ''k'', Error (Some ''AccessDenied''))]\<rparr>"

text \<open>Three objects; the stat call for the second one throws.\<close>

definition threeObjects :: "bucketItem list" where
  "threeObjects =
     [\<lparr>item_name = ''a'', item_size = 1, item_lastModified = 10\<rparr>,
      \<lparr>item_name = ''b'', item_size = 2, item_lastModified = 20\<rparr>,
      \<lparr>item_name = ''c'', item_size = 0, item_lastModified = 30\<rparr>]"

definition degradedStore :: memStore where
  "degradedStore = emptyStore
     \<lparr>objects :=
        [((BUCKET_NAME, ''a''),
          \<lparr>content = [1], objMetaData = [(''content-type'', ''text/plain'')], lastModified = 10\<rparr>),
         ((BUCKET_NAME, ''b''), \<lparr>content = [1, 2], objMetaData = [], lastModified = 20\<rparr>),
         ((BUCKET_NAME, ''c''), \<lparr>content = [], objMetaData = [], lastModified = 30\<rparr>)],
      faults := [(StatObject BUCKET_NAME ''b'', Error None)]\<rparr>"

text \<open>
  An object stored with the original name \<open>a.txt\<close> as user metadata, and a store that
  cannot be reached when the bucket is looked up.
\<close>

definition namedStore :: memStore where
  "namedStore = emptyStore\<lparr>objects :=
     [((BUCKET_NAME, ''k''),
       \<lparr>content = [1, 2, 3], objMetaData = [(''x-amz-meta-original-name'', ''a.txt'')],
        lastModified = 7\<rparr>)]\<rparr>"

definition unreachableStore :: memStore where
  "unreachableStore = emptyStore\<lparr>faults :=
     [(BucketExists BUCKET_NAME, Error (Some ''ECONNREFUSED''))]\<rparr>"

text \<open>A store without the bucket, which refuses to create it.\<close>

definition noBucketStore :: memStore where
  "noBucketStore = emptyStore\<lparr>buckets := [], faults :=
     [(MakeBucket BUCKET_NAME ''us-east-1'', Error (Some ''AccessDenied''))]\<rparr>"

section \<open>Results\<close>

subsection \<open>Deleting\<close>

text \<open>
  What the handler does, for every client, when the stat call throws: it answers from its
  \<open>catch\<close> clause, 404 only for the code \<open>NoSuchKey\<close>; the store is as it was, and
  the result is the same whatever \<open>removeObject\<close> would have done, which is to say that
  \<open>removeObject\<close> is not called.
\<close>

lemma deleteFile_stat_throws:
  assumes "statObject c s BUCKET_NAME name = Inl err"
  shows "response (deleteFile c s name) =
           (if code err = Some ''NoSuchKey'' then send 404 (errorBody ''File not found'')
            else send 500 (errorBody ''Failed to delete file''))"
    and "store (deleteFile c s name) = s"
    and "calls (deleteFile c s name) = [StatObject BUCKET_NAME name]"
    and "deleteFile (c\<lparr>removeObject := r\<rparr>) s name = deleteFile c s name"
  using assms by (simp_all add: deleteFile_def deleteFileCatch_def)

lemma deleteFile_absent_key:
  assumes "map_of (faults m) (StatObject BUCKET_NAME name) = None"
    and "map_of (objects m) (BUCKET_NAME, name) = None"
  shows "response (deleteFile memClient m name) = send 500 (errorBody ''Failed to delete file'')"
    and "store (deleteFile memClient m name) = m"
proof -
  have "statObject memClient m BUCKET_NAME name = Inl (Error (Some ''NotFound''))"
    using assms by (simp add: memClient_def memStatObject_def)
  from deleteFile_stat_throws(1,2) [OF this]
  show "response (deleteFile memClient m name) = send 500 (errorBody ''Failed to delete file'')"
    and "store (deleteFile memClient m name) = m"
    by simp_all
qed

text \<open>
  C5. Delete does ask for the object's stat first, and when the key is not in the bucket
  it issues no delete and leaves the store as it was. But the reply is not the not-found
  one: the stat call on a missing key throws with the code \<open>NotFound\<close>, the handler
  compares the code with \<open>NoSuchKey\<close>, and \<open>DELETE /file/does-not-exist\<close> is answered
  500 \<open>Failed to delete file\<close>.
\<close>

theorem deleteFile_missing_key_500:
  "map_of (objects emptyStore) (BUCKET_NAME, ''does-not-exist'') = None
   \<and> statObject memClient emptyStore BUCKET_NAME ''does-not-exist''
       = Inl (Error (Some ''NotFound''))
   \<and> response (deleteFile memClient emptyStore ''does-not-exist'')
       = \<lparr>statusCode = 500, headers = [],
          payload = Json (JObj [(''error'', JStr ''Failed to delete file'')])\<rparr>
   \<and> store (deleteFile memClient emptyStore ''does-not-exist'') = emptyStore
   \<and> calls (deleteFile memClient emptyStore ''does-not-exist'')
       = [StatObject ''my-bucket'' ''does-not-exist'']
   \<and> deleteFile (memClient\<lparr>removeObject := r\<rparr>) emptyStore ''does-not-exist''
       = deleteFile memClient emptyStore ''does-not-exist''"
proof -
  have absent: "map_of (objects emptyStore) (BUCKET_NAME, ''does-not-exist'') = None"
    by (simp add: emptyStore_def)
  have stat: "statObject memClient emptyStore BUCKET_NAME ''does-not-exist''
       = Inl (Error (Some ''NotFound''))"
    by (simp add: memClient_def memStatObject_def emptyStore_def)
  note d = deleteFile_stat_throws [OF stat]
  have "response (deleteFile memClient emptyStore ''does-not-exist'')
       = \<lparr>statusCode = 500, headers = [],
          payload = Json (JObj [(''error'', JStr ''Failed to delete file'')])\<rparr>"
    using d(1) by (simp add: send_def errorBody_def)
  moreover have "calls (deleteFile memClient emptyStore ''does-not-exist'')
       = [StatObject ''my-bucket'' ''does-not-exist'']"
    using d(3) by (simp add: BUCKET_NAME_def)
  ultimately show ?thesis
    using absent stat d(2) d(4) [of r] by simp
qed

subsection \<open>Retrieving\<close>

text \<open>
  C6. When the store answers \<open>getObject\<close> with its not-found error (code \<open>NoSuchKey\<close>),
  Retrieve answers 404; any other error of \<open>getObject\<close> or of \<open>statObject\<close> gives the
  generic failure, 500. When both calls return and the object's metadata has no content
  type, the reply is sent as \<open>application/octet-stream\<close>. On the reference client
  every key that is not in the bucket is answered with 404.
\<close>

theorem getFile_not_found:
  "(getObject c s BUCKET_NAME name = Inl err \<and> code err = Some ''NoSuchKey'' \<longrightarrow>
      response (getFile c s name) = send 404 (errorBody ''File not found''))
   \<and> (getObject c s BUCKET_NAME name = Inl err \<and> code err \<noteq> Some ''NoSuchKey'' \<longrightarrow>
      response (getFile c s name) = send 500 (errorBody ''Failed to retrieve file''))
   \<and> (getObject c s BUCKET_NAME name = Inr dataStream
        \<and> statObject c s BUCKET_NAME name = Inl err \<longrightarrow>
      response (getFile c s name) =
        (if code err = Some ''NoSuchKey'' then send 404 (errorBody ''File not found'')
         else send 500 (errorBody ''Failed to retrieve file'')))
   \<and> (getObject c s BUCKET_NAME name = Inr dataStream
        \<and> statObject c s BUCKET_NAME name = Inr stat
        \<and> map_of (stat_metaData stat) ''content-type'' = None \<longrightarrow>
      statusCode (response (getFile c s name)) = 200
      \<and> payload (response (getFile c s name)) = Stream dataStream
      \<and> map_of (headers (response (getFile c s name))) ''content-type''
          = Some ''application/octet-stream'')
   \<and> (BUCKET_NAME \<in> set (buckets m) \<and> faults m = []
        \<and> map_of (objects m) (BUCKET_NAME, name) = None \<longrightarrow>
      response (getFile memClient m name) = send 404 (errorBody ''File not found''))
   \<and> statusCode (send 404 (errorBody ''File not found'')) = 404
   \<and> statusCode (send 500 (errorBody ''Failed to retrieve file'')) = 500"
  by (simp add: getFile_def getFileCatch_def send_def orElse_def memClient_def memGetObject_def)

theorem getFile_not_found_witness:
  "getObject memClient emptyStore BUCKET_NAME ''does-not-exist'' = Inl (Error (Some ''NoSuchKey''))
   \<and> response (getFile memClient emptyStore ''does-not-exist'')
        = send 404 (errorBody ''File not found'')
   \<and> getObject memClient deniedStore
        BUCKET_NAME ''k'' = Inl (Error (Some ''AccessDenied''))
   \<and> response (getFile memClient
        deniedStore ''k'')
        = send 500 (errorBody ''Failed to retrieve file'')
   \<and> getObject memClient statDeniedStore BUCKET_NAME ''k'' = Inr [1, 2, 3]
   \<and> statObject memClient statDeniedStore BUCKET_NAME ''k'' = Inl (Error (Some ''AccessDenied''))
   \<and> response (getFile memClient statDeniedStore ''k'')
        = send 500 (errorBody ''Failed to retrieve file'')
   \<and> getObject memClient plainStore BUCKET_NAME ''k'' = Inr [1, 2, 3]
   \<and> statObject memClient plainStore BUCKET_NAME ''k'' = Inr \<lparr>stat_size = 3, stat_metaData = []\<rparr>
   \<and> map_of (headers (response (getFile memClient plainStore ''k''))) ''content-type''
        = Some ''application/octet-stream''"
  using getFile_not_found
      [of memClient emptyStore "''does-not-exist''" "Error (Some ''NoSuchKey'')" _ _ emptyStore]
    getFile_not_found
      [of memClient deniedStore "''k''" "Error (Some ''AccessDenied'')"]
    getFile_not_found
      [of memClient statDeniedStore "''k''" "Error (Some ''AccessDenied'')" "[1, 2, 3]"]
    getFile_not_found
      [of memClient plainStore "''k''" _ "[1, 2, 3]" "\<lparr>stat_size = 3, stat_metaData = []\<rparr>"]
  by (simp add: memClient_def memGetObject_def memStatObject_def emptyStore_def plainStore_def
      deniedStore_def statDeniedStore_def)

subsection \<open>Listing\<close>

lemma listLoop_append: "listLoop c s items acc = acc @ map (listEntry c s) items"
  by (induction items arbitrary: acc) simp_all

lemma listFiles_response:
  "listObjects c s BUCKET_NAME [] True = (items, None) \<Longrightarrow>
   response (listFiles c s) = send 200 (JObj
     [(''bucket'', JStr BUCKET_NAME),
      (''files'', JArr (map (listEntry c s) items)),
      (''count'', JNum (length items))])"
  by (simp add: listFiles_def listLoop_append)

text \<open>
  C9. An object whose stat call returns metadata without an original-name entry is listed
  with its own storage key as \<open>originalName\<close>.
\<close>

theorem listFiles_originalName_fallback:
  assumes "listObjects c s BUCKET_NAME [] True = (items, None)"
    and "i < length items"
    and "statObject c s BUCKET_NAME (item_name (items ! i)) = Inr stat"
    and "map_of (stat_metaData stat) ''x-amz-meta-original-name'' = None"
  shows "\<exists>files. response (listFiles c s) = send 200 (JObj
           [(''bucket'', JStr BUCKET_NAME), (''files'', JArr files),
            (''count'', JNum (length items))])
         \<and> length files = length items
         \<and> getProp (files ! i) ''name'' = JStr (item_name (items ! i))
         \<and> getProp (files ! i) ''originalName'' = JStr (item_name (items ! i))"
proof -
  have "getProp (listEntry c s (items ! i)) ''originalName'' = JStr (item_name (items ! i))"
    "getProp (listEntry c s (items ! i)) ''name'' = JStr (item_name (items ! i))"
    using assms(3,4) by (simp_all add: listEntry_def fullEntry_def orElse_def)
  with assms(1,2) show ?thesis
    by (intro exI [of _ "map (listEntry c s) items"]) (simp add: listFiles_response)
qed

theorem listFiles_originalName_fallback_witness:
  "listObjects memClient plainStore BUCKET_NAME [] True
     = ([\<lparr>item_name = ''k'', item_size = 3, item_lastModified = 7\<rparr>], None)
   \<and> statObject memClient plainStore BUCKET_NAME ''k'' = Inr \<lparr>stat_size = 3, stat_metaData = []\<rparr>
   \<and> (\<exists>files. response (listFiles memClient plainStore) = send 200 (JObj
           [(''bucket'', JStr BUCKET_NAME), (''files'', JArr files), (''count'', JNum 1)])
         \<and> length files = 1
         \<and> getProp (files ! 0) ''name'' = JStr ''k''
         \<and> getProp (files ! 0) ''originalName'' = JStr ''k'')"
proof -
  let ?items = "[\<lparr>item_name = ''k'', item_size = 3, item_lastModified = 7\<rparr>]"
  have h1: "listObjects memClient plainStore BUCKET_NAME [] True = (?items, None)"
    by (simp add: memClient_def memListObjects_def plainStore_def emptyStore_def)
  have h2: "(0::nat) < length ?items"
    by simp
  have h3: "statObject memClient plainStore BUCKET_NAME (item_name (?items ! 0))
              = Inr \<lparr>stat_size = 3, stat_metaData = []\<rparr>"
    by (simp add: memClient_def memStatObject_def plainStore_def emptyStore_def)
  have h4: "map_of (stat_metaData \<lparr>stat_size = 3, stat_metaData = []\<rparr>) ''x-amz-meta-original-name'' = None"
    by simp
  show ?thesis
    using h1 h3 listFiles_originalName_fallback [OF h1 h2 h3 h4] by simp
qed

text \<open>
  C2. When the stream of objects ends without an error and exactly one object's stat call
  throws, List answers 200: that object's entry has its name, size and last-modified time
  and nothing else; each other object's entry has its name, its original name (the
  metadata entry \<open>x-amz-meta-original-name\<close> if that is a non-empty string, the key
  otherwise), its size, its last-modified time and its content type (the metadata entry
  \<open>content-type\<close>, \<open>undefined\<close> without one); \<open>count\<close> is the number of objects the
  stream yielded.
\<close>

theorem listFiles_one_stat_fails:
  assumes "listObjects c s BUCKET_NAME [] True = (items, None)"
    and "i < length items"
    and "statObject c s BUCKET_NAME (item_name (items ! i)) = Inl err"
    and "\<forall>j < length items. j \<noteq> i \<longrightarrow> \<not> isl (statObject c s BUCKET_NAME (item_name (items ! j)))"
  shows "\<exists>files. response (listFiles c s) =
           \<lparr>statusCode = 200, headers = [],
            payload = Json (JObj
              [(''bucket'', JStr ''my-bucket''), (''files'', JArr files),
               (''count'', JNum (length items))])\<rparr>
         \<and> length files = length items
         \<and> files ! i = JObj
             [(''name'', JStr (item_name (items ! i))),
              (''size'', JNum (item_size (items ! i))),
              (''lastModified'', JDate (item_lastModified (items ! i)))]
         \<and> (\<forall>j < length items. j \<noteq> i \<longrightarrow>
              (\<exists>stat. statObject c s BUCKET_NAME (item_name (items ! j)) = Inr stat
                    \<and> files ! j = JObj
                        [(''name'', JStr (item_name (items ! j))),
                         (''originalName'',
                          JStr (case map_of (stat_metaData stat) ''x-amz-meta-original-name'' of
                                  None \<Rightarrow> item_name (items ! j)
                                | Some v \<Rightarrow> if v = [] then item_name (items ! j) else v)),
                         (''size'', JNum (item_size (items ! j))),
                         (''lastModified'', JDate (item_lastModified (items ! j))),
                         (''contentType'',
                          (case map_of (stat_metaData stat) ''content-type'' of
                             None \<Rightarrow> JUndefined
                           | Some ct \<Rightarrow> JStr ct))]))"
proof -
  let ?files = "map (listEntry c s) items"
  have r: "response (listFiles c s) =
           \<lparr>statusCode = 200, headers = [],
            payload = Json (JObj
              [(''bucket'', JStr ''my-bucket''), (''files'', JArr ?files),
               (''count'', JNum (length items))])\<rparr>"
    using listFiles_response [OF assms(1)] by (simp add: send_def BUCKET_NAME_def)
  have "listEntry c s (items ! i) = basicEntry (items ! i)"
    using assms(3) by (simp add: listEntry_def)
  then have i: "?files ! i = JObj
             [(''name'', JStr (item_name (items ! i))),
              (''size'', JNum (item_size (items ! i))),
              (''lastModified'', JDate (item_lastModified (items ! i)))]"
    using assms(2) by (simp add: basicEntry_def)
  have j: "\<exists>stat. statObject c s BUCKET_NAME (item_name (items ! j)) = Inr stat
             \<and> ?files ! j = JObj
                        [(''name'', JStr (item_name (items ! j))),
                         (''originalName'',
                          JStr (case map_of (stat_metaData stat) ''x-amz-meta-original-name'' of
                                  None \<Rightarrow> item_name (items ! j)
                                | Some v \<Rightarrow> if v = [] then item_name (items ! j) else v)),
                         (''size'', JNum (item_size (items ! j))),
                         (''lastModified'', JDate (item_lastModified (items ! j))),
                         (''contentType'',
                          (case map_of (stat_metaData stat) ''content-type'' of
                             None \<Rightarrow> JUndefined
                           | Some ct \<Rightarrow> JStr ct))]"
    if "j < length items" "j \<noteq> i" for j
  proof (cases "statObject c s BUCKET_NAME (item_name (items ! j))")
    case (Inl e)
    with assms(4) that show ?thesis by auto
  next
    case (Inr stat)
    with that(1) show ?thesis
      by (simp add: listEntry_def fullEntry_def orElse_def)
  qed
  from r i j show ?thesis
    by (intro exI [of _ ?files]) simp
qed

theorem listFiles_one_stat_fails_witness:
  "listObjects memClient degradedStore BUCKET_NAME [] True = (threeObjects, None)
   \<and> statObject memClient degradedStore BUCKET_NAME ''b'' = Inl (Error None)
   \<and> statObject memClient degradedStore BUCKET_NAME ''a''
       = Inr \<lparr>stat_size = 1, stat_metaData = [(''content-type'', ''text/plain'')]\<rparr>
   \<and> statObject memClient degradedStore BUCKET_NAME ''c''
       = Inr \<lparr>stat_size = 0, stat_metaData = []\<rparr>
   \<and> (\<exists>files. response (listFiles memClient degradedStore) =
           \<lparr>statusCode = 200, headers = [],
            payload = Json (JObj
              [(''bucket'', JStr ''my-bucket''), (''files'', JArr files), (''count'', JNum 3)])\<rparr>
         \<and> length files = 3
         \<and> files ! 0 = JObj
             [(''name'', JStr ''a''), (''originalName'', JStr ''a''), (''size'', JNum 1),
              (''lastModified'', JDate 10), (''contentType'', JStr ''text/plain'')]
         \<and> files ! 1 = JObj
             [(''name'', JStr ''b''), (''size'', JNum 2), (''lastModified'', JDate 20)]
         \<and> files ! 2 = JObj
             [(''name'', JStr ''c''), (''originalName'', JStr ''c''), (''size'', JNum 0),
              (''lastModified'', JDate 30), (''contentType'', JUndefined)])"
proof -
  have h1: "listObjects memClient degradedStore BUCKET_NAME [] True = (threeObjects, None)"
    by (simp add: memClient_def memListObjects_def degradedStore_def emptyStore_def threeObjects_def)
  have h2: "1 < length threeObjects"
    by (simp add: threeObjects_def)
  have b: "statObject memClient degradedStore BUCKET_NAME ''b'' = Inl (Error None)"
    by (simp add: memClient_def memStatObject_def degradedStore_def emptyStore_def)
  have a: "statObject memClient degradedStore BUCKET_NAME ''a''
       = Inr \<lparr>stat_size = 1, stat_metaData = [(''content-type'', ''text/plain'')]\<rparr>"
    by (simp add: memClient_def memStatObject_def degradedStore_def emptyStore_def
        BUCKET_NAME_def stripMetaPrefix_def)
  have c: "statObject memClient degradedStore BUCKET_NAME ''c''
       = Inr \<lparr>stat_size = 0, stat_metaData = []\<rparr>"
    by (simp add: memClient_def memStatObject_def degradedStore_def emptyStore_def BUCKET_NAME_def)
  have h3: "statObject memClient degradedStore BUCKET_NAME (item_name (threeObjects ! 1)) = Inl (Error None)"
    using b by (simp add: threeObjects_def)
  have h4: "\<forall>j < length threeObjects. j \<noteq> 1 \<longrightarrow>
              \<not> isl (statObject memClient degradedStore BUCKET_NAME (item_name (threeObjects ! j)))"
    using a c by (simp add: threeObjects_def numeral_3_eq_3 less_Suc_eq)
  from listFiles_one_stat_fails [OF h1 h2 h3 h4]
  obtain files where
    r: "response (listFiles memClient degradedStore) =
           \<lparr>statusCode = 200, headers = [],
            payload = Json (JObj
              [(''bucket'', JStr ''my-bucket''), (''files'', JArr files),
               (''count'', JNum (length threeObjects))])\<rparr>"
    and len: "length files = length threeObjects"
    and f1: "files ! 1 = JObj
       [(''name'', JStr (item_name (threeObjects ! 1))),
        (''size'', JNum (item_size (threeObjects ! 1))),
        (''lastModified'', JDate (item_lastModified (threeObjects ! 1)))]"
    and rest: "\<And>j. j < length threeObjects \<Longrightarrow> j \<noteq> 1 \<Longrightarrow>
        (\<exists>stat. statObject memClient degradedStore BUCKET_NAME (item_name (threeObjects ! j)) = Inr stat
              \<and> files ! j = JObj
                  [(''name'', JStr (item_name (threeObjects ! j))),
                   (''originalName'',
                    JStr (case map_of (stat_metaData stat) ''x-amz-meta-original-name'' of
                            None \<Rightarrow> item_name (threeObjects ! j)
                          | Some v \<Rightarrow> if v = [] then item_name (threeObjects ! j) else v)),
                   (''size'', JNum (item_size (threeObjects ! j))),
                   (''lastModified'', JDate (item_lastModified (threeObjects ! j))),
                   (''contentType'',
                    (case map_of (stat_metaData stat) ''content-type'' of
                       None \<Rightarrow> JUndefined
                     | Some ct \<Rightarrow> JStr ct))])"
    by blast
  have f0: "files ! 0 = JObj
             [(''name'', JStr ''a''), (''originalName'', JStr ''a''), (''size'', JNum 1),
              (''lastModified'', JDate 10), (''contentType'', JStr ''text/plain'')]"
    using rest [of 0] a by (auto simp: threeObjects_def)
  have f2: "files ! 2 = JObj
             [(''name'', JStr ''c''), (''originalName'', JStr ''c''), (''size'', JNum 0),
              (''lastModified'', JDate 30), (''contentType'', JUndefined)]"
    using rest [of 2] c by (auto simp: threeObjects_def)
  have "response (listFiles memClient degradedStore) =
           \<lparr>statusCode = 200, headers = [],
            payload = Json (JObj
              [(''bucket'', JStr ''my-bucket''), (''files'', JArr files), (''count'', JNum 3)])\<rparr>
         \<and> length files = 3
         \<and> files ! 1 = JObj
             [(''name'', JStr ''b''), (''size'', JNum 2), (''lastModified'', JDate 20)]"
    using r len f1 by (simp add: threeObjects_def numeral_3_eq_3)
  with h1 a b c f0 f2 show ?thesis
    by blast
qed

subsection \<open>Naming\<close>

lemma digitChar_in: "d < 10 \<Longrightarrow> digitChar d \<in> set ''0123456789''"
  unfolding digitChar_def by (rule nth_mem) simp

lemma digitChar_inj: "d < 10 \<Longrightarrow> e < 10 \<Longrightarrow> digitChar d = digitChar e \<Longrightarrow> d = e"
  unfolding digitChar_def by (subst (asm) nth_eq_iff_index_eq) simp_all

lemma decimal_nonempty: "decimal n \<noteq> []"
  by (subst decimal.simps) simp

lemma decimal_digits: "set (decimal n) \<subseteq> set ''0123456789''"
proof (induction n rule: decimal.induct)
  case (1 n)
  show ?case
  proof (cases "n < 10")
    case True
    then show ?thesis
      using digitChar_in [of n] by (subst decimal.simps) simp
  next
    case False
    then have "set (decimal (n div 10)) \<subseteq> set ''0123456789''"
      by (rule "1.IH")
    moreover have "digitChar (n mod 10) \<in> set ''0123456789''"
      by (rule digitChar_in) simp
    ultimately show ?thesis
      using False by (subst decimal.simps) simp
  qed
qed

lemma decimal_inj: "decimal m = decimal n \<Longrightarrow> m = n"
proof (induction m arbitrary: n rule: decimal.induct)
  case (1 m)
  show ?case
  proof (cases "m < 10")
    case m: True
    show ?thesis
    proof (cases "n < 10")
      case True
      with m "1.prems" show ?thesis
        by (auto simp: decimal.simps [of m] decimal.simps [of n] dest: digitChar_inj)
    next
      case False
      with m "1.prems" decimal_nonempty [of "n div 10"] show ?thesis
        by (simp add: decimal.simps [of m] decimal.simps [of n])
    qed
  next
    case m: False
    show ?thesis
    proof (cases "n < 10")
      case True
      with m "1.prems" decimal_nonempty [of "m div 10"] show ?thesis
        by (simp add: decimal.simps [of m] decimal.simps [of n])
    next
      case False
      with m "1.prems" have "decimal (m div 10) = decimal (n div 10)"
        and d: "digitChar (m mod 10) = digitChar (n mod 10)"
        by (simp_all add: decimal.simps [of m] decimal.simps [of n])
      then have "m div 10 = n div 10"
        using "1.IH" m by blast
      moreover have "m mod 10 = n mod 10"
        using d by (rule digitChar_inj [rotated 2]) simp_all
      ultimately show ?thesis
        by (metis div_mult_mod_eq)
    qed
  qed
qed

lemma split_at_dash:
  assumes "xs @ c # ys = xs' @ c # ys'" "c \<notin> set xs" "c \<notin> set xs'"
  shows "xs = xs' \<and> ys = ys'"
proof -
  have "takeWhile (\<lambda>x. x \<noteq> c) (xs @ c # ys) = xs" "takeWhile (\<lambda>x. x \<noteq> c) (xs' @ c # ys') = xs'"
    using assms(2,3) by (auto simp: takeWhile_tail)
  with assms(1) have "xs = xs'" by simp
  with assms(1) show ?thesis by simp
qed

lemma dash_not_digit: "CHR ''-'' \<notin> set (decimal n)"
  using decimal_digits [of n] by auto

lemma uniqueFilename_inj:
  "uniqueFilename t name = uniqueFilename t' name' \<longleftrightarrow> t = t' \<and> name = name'"
  using split_at_dash [of "decimal t" "CHR ''-''" name "decimal t'" name'] dash_not_digit decimal_inj
  by (auto simp: uniqueFilename_def)

lemma decimal_example: "decimal 1700000000000 = ''1700000000000''"
  by (simp add: decimal.simps digitChar_def)

text \<open>
  C8. The key under which an upload is stored, and which the reply reports, is the decimal
  rendering of the upload's timestamp, a hyphen, and the client's filename unchanged: the
  key for \<open>a.txt\<close> ends in \<open>-a.txt\<close>. The timestamp part is a non-empty string of
  digits, so two keys are equal only for the same timestamp and the same filename.
\<close>

theorem uniqueFilename_format:
  "calls (upload c s now (Inr (Some d)))
     = [PutObject BUCKET_NAME (decimal now @ ''-'' @ filename d) (fileStream d) None]
   \<and> (putObject c s BUCKET_NAME (decimal now @ ''-'' @ filename d) (fileStream d) None = Inr s' \<longrightarrow>
        response (upload c s now (Inr (Some d))) = send 200 (JObj
          [(''success'', JBool True),
           (''message'', JStr ''File uploaded successfully''),
           (''filename'', JStr (decimal now @ ''-'' @ filename d)),
           (''originalName'', JStr (filename d)),
           (''mimetype'', JStr (mimetype d))]))
   \<and> uniqueFilename now name = decimal now @ ''-'' @ name
   \<and> decimal now \<noteq> [] \<and> set (decimal now) \<subseteq> set ''0123456789''
   \<and> suffix (''-'' @ name) (uniqueFilename now name)
   \<and> suffix ''-a.txt'' (uniqueFilename now ''a.txt'')
   \<and> (uniqueFilename now name = uniqueFilename now' name' \<longleftrightarrow> now = now' \<and> name = name')"
proof -
  have "calls (upload c s now (Inr (Some d)))
     = [PutObject BUCKET_NAME (decimal now @ ''-'' @ filename d) (fileStream d) None]"
    by (simp add: upload_def uniqueFilename_def Let_def split: sum.splits)
  moreover have "putObject c s BUCKET_NAME (decimal now @ ''-'' @ filename d) (fileStream d) None = Inr s' \<longrightarrow>
        response (upload c s now (Inr (Some d))) = send 200 (JObj
          [(''success'', JBool True),
           (''message'', JStr ''File uploaded successfully''),
           (''filename'', JStr (decimal now @ ''-'' @ filename d)),
           (''originalName'', JStr (filename d)),
           (''mimetype'', JStr (mimetype d))])"
    by (simp add: upload_def uniqueFilename_def Let_def)
  moreover have "suffix (''-'' @ name) (uniqueFilename now name)" for name
    unfolding uniqueFilename_def by (rule suffix_appendI) simp
  ultimately show ?thesis
    using decimal_nonempty [of now] decimal_digits [of now] uniqueFilename_inj [of now name now' name']
    by (simp add: uniqueFilename_def)
qed

theorem uniqueFilename_format_witness:
  "(\<exists>s'. putObject memClient emptyStore BUCKET_NAME (decimal 1700000000000 @ ''-'' @ filename aTxt)
       (fileStream aTxt) None = Inr s')
   \<and> response (upload memClient emptyStore 1700000000000 (Inr (Some aTxt))) = send 200 (JObj
          [(''success'', JBool True),
           (''message'', JStr ''File uploaded successfully''),
           (''filename'', JStr ''1700000000000-a.txt''),
           (''originalName'', JStr ''a.txt''),
           (''mimetype'', JStr ''text/plain'')])
   \<and> suffix ''-a.txt'' (uniqueFilename 1700000000000 ''a.txt'')"
proof -
  obtain s' where h: "putObject memClient emptyStore BUCKET_NAME
      (decimal 1700000000000 @ ''-'' @ filename aTxt) (fileStream aTxt) None = Inr s'"
    by (simp add: memClient_def memPutObject_def emptyStore_def)
  show ?thesis
    using h uniqueFilename_format [of memClient emptyStore 1700000000000 aTxt s' "''a.txt''" 0 "[]"]
    by (auto simp: decimal_example aTxt_def)
qed

subsection \<open>Posts\<close>

lemma createPosts_append:
  "createPosts posts reqs =
     posts @ map (\<lambda>(n, b). postObject n b)
       (zip [Suc (length posts) ..< Suc (length posts + length (filter (\<lambda>b. b \<noteq> JUndefined \<and> b \<noteq> JNull) reqs))]
            (filter (\<lambda>b. b \<noteq> JUndefined \<and> b \<noteq> JNull) reqs))"
proof (induction reqs arbitrary: posts)
  case Nil
  show ?case by simp
next
  case (Cons b reqs)
  let ?ok = "\<lambda>b. b \<noteq> JUndefined \<and> b \<noteq> JNull"
  let ?k = "length (filter ?ok reqs)"
  show ?case
  proof (cases "?ok b")
    case False
    then have "createPosts posts (b # reqs) = createPosts posts reqs"
      by (auto simp: createPost_def)
    with False show ?thesis
      using Cons.IH [of posts] by auto
  next
    case True
    let ?n = "length posts"
    have step: "createPosts posts (b # reqs) = createPosts (posts @ [postObject (Suc ?n) b]) reqs"
      using True by (simp add: createPost_def Let_def)
    have f: "filter ?ok (b # reqs) = b # filter ?ok reqs"
      using True by simp
    show ?thesis
      unfolding step f using Cons.IH [of "posts @ [postObject (Suc ?n) b]"]
      by (simp add: upt_conv_Cons [of "Suc ?n"] del: upt_Suc)
  qed
qed

text \<open>
  C7. Starting from the empty array, the posts created by a run of \<open>POST /posts\<close>
  requests carry the identifiers 1, 2, 3, ... in request order, with none repeated and
  none left out (a request without a body creates nothing and uses no identifier);
  \<open>GET /posts\<close> returns them all in the order they were created.
\<close>

theorem posts_sequential_ids:
  "map (\<lambda>p. getProp p ''id'') (createPosts [] reqs)
     = map JNum [1 ..< Suc (length (filter (\<lambda>b. b \<noteq> JUndefined \<and> b \<noteq> JNull) reqs))]
   \<and> createPosts [] reqs
     = map (\<lambda>(n, b). postObject n b)
         (zip [1 ..< Suc (length (filter (\<lambda>b. b \<noteq> JUndefined \<and> b \<noteq> JNull) reqs))]
              (filter (\<lambda>b. b \<noteq> JUndefined \<and> b \<noteq> JNull) reqs))
   \<and> distinct (map (\<lambda>p. getProp p ''id'') (createPosts [] reqs))
   \<and> ((\<forall>b \<in> set reqs. b \<noteq> JUndefined \<and> b \<noteq> JNull) \<longrightarrow>
        map (\<lambda>p. getProp p ''id'') (createPosts [] reqs) = map JNum [1 ..< Suc (length reqs)])
   \<and> listPosts (createPosts [] reqs) = send 200 (JArr (createPosts [] reqs))"
proof -
  let ?ok = "\<lambda>b. b \<noteq> JUndefined \<and> b \<noteq> JNull"
  let ?k = "length (filter ?ok reqs)"
  have posts: "createPosts [] reqs = map (\<lambda>(n, b). postObject n b) (zip [1 ..< Suc ?k] (filter ?ok reqs))"
    using createPosts_append [of "[]" reqs] by simp
  have "map (\<lambda>p. getProp p ''id'') (map (\<lambda>(n, b). postObject n b) (zip ns bs)) = map JNum ns"
    if "length ns = length bs" for ns :: "nat list" and bs
    using that by (induction ns bs rule: list_induct2) (simp_all add: postObject_def)
  from this [of "[1 ..< Suc ?k]" "filter ?ok reqs"]
  have ids: "map (\<lambda>p. getProp p ''id'') (createPosts [] reqs) = map JNum [1 ..< Suc ?k]"
    unfolding posts by (simp del: upt_Suc)
  have dist: "distinct (map (\<lambda>p. getProp p ''id'') (createPosts [] reqs))"
    unfolding ids by (simp add: distinct_map inj_on_def)
  have all: "map (\<lambda>p. getProp p ''id'') (createPosts [] reqs) = map JNum [1 ..< Suc (length reqs)]"
    if "\<forall>b \<in> set reqs. ?ok b"
  proof -
    from that have "filter ?ok reqs = reqs" by (simp add: filter_id_conv)
    with ids show ?thesis by simp
  qed
  from posts ids dist all show ?thesis
    by (simp add: listPosts_def)
qed

theorem posts_sequential_ids_witness:
  "map (\<lambda>p. getProp p ''id'')
        (createPosts [] [JObj [(''title'', JStr ''t''), (''description'', JStr ''d''), (''fileKey'', JStr ''k'')],
                         JStr ''x''])
      = [JNum 1, JNum 2]
   \<and> listPosts (createPosts [] [JObj [(''title'', JStr ''t''), (''description'', JStr ''d''), (''fileKey'', JStr ''k'')],
                         JStr ''x''])
      = send 200 (JArr
          [JObj [(''id'', JNum 1), (''title'', JStr ''t''), (''description'', JStr ''d''), (''fileKey'', JStr ''k'')],
           JObj [(''id'', JNum 2), (''title'', JUndefined), (''description'', JUndefined),
                 (''fileKey'', JUndefined)]])"
  using posts_sequential_ids
    [of "[JObj [(''title'', JStr ''t''), (''description'', JStr ''d''), (''fileKey'', JStr ''k'')], JStr ''x'']"]
  by (simp add: postObject_def listPosts_def numeral_2_eq_2)

subsection \<open>Storing, then retrieving\<close>

lemma map_of_putEntry: "map_of (putEntry k v xs) k = Some v"
  by (induction xs) auto

lemma memPutObject_Inr:
  assumes "memPutObject m b k data md = Inr m'"
  shows "b \<in> set (buckets m')" and "faults m' = faults m" and "defaultType m' = defaultType m"
    and "map_of (objects m') (b, k) =
           Some \<lparr>content = data,
                 objMetaData = (case md of Some x \<Rightarrow> x | None \<Rightarrow>
                    (case defaultType m of None \<Rightarrow> [] | Some t \<Rightarrow> [(''content-type'', t)])),
                 lastModified = clock m\<rparr>"
  using assms by (auto simp: memPutObject_def map_of_putEntry split: option.splits if_splits)

text \<open>
  On the reference client, what Retrieve returns right after a successful Store: the
  bytes that were stored, under the store's default content type, or
  \<open>application/octet-stream\<close> when the store has none.
\<close>

lemma upload_then_getFile:
  assumes put: "putObject memClient m BUCKET_NAME (uniqueFilename now (filename d)) (fileStream d) None = Inr m'"
    and g: "map_of (faults m) (GetObject BUCKET_NAME (uniqueFilename now (filename d))) = None"
    and st: "map_of (faults m) (StatObject BUCKET_NAME (uniqueFilename now (filename d))) = None"
  shows "response (getFile memClient (store (upload memClient m now (Inr (Some d))))
            (uniqueFilename now (filename d)))
         = \<lparr>statusCode = 200,
            headers = [(''content-type'', orElse (defaultType m) ''application/octet-stream''),
                       (''Content-Length'', decimal (length (fileStream d)))],
            payload = Stream (fileStream d)\<rparr>"
proof -
  let ?key = "uniqueFilename now (filename d)"
  have p: "memPutObject m BUCKET_NAME ?key (fileStream d) None = Inr m'"
    using put by (simp add: memClient_def)
  have s: "store (upload memClient m now (Inr (Some d))) = m'"
    using put by (simp add: upload_def Let_def)
  note f = memPutObject_Inr [OF p]
  have get: "getObject memClient m' BUCKET_NAME ?key = Inr (fileStream d)"
    using f g by (simp add: memClient_def memGetObject_def)
  have stat: "statObject memClient m' BUCKET_NAME ?key =
      Inr \<lparr>stat_size = length (fileStream d),
           stat_metaData = (case defaultType m of None \<Rightarrow> [] | Some t \<Rightarrow> [(''content-type'', t)])\<rparr>"
    using f st by (simp add: memClient_def memStatObject_def stripMetaPrefix_def split: option.splits)
  show ?thesis
    unfolding s by (simp add: getFile_def get stat contentDisposition_def orElse_def split: option.splits)
qed

text \<open>
  C1. Store then Retrieve gives back the same bytes, but not the declared content type:
  \<open>putObject\<close> is called with the key and the stream only, so neither the content type
  nor the original filename reaches the store, and the store after the upload is the
  same whatever content type was declared. For \<open>a.txt\<close>, declared \<open>text/plain\<close>, with
  content \<open>hi\<close>, the object has no metadata and is retrieved as
  \<open>application/octet-stream\<close>.
\<close>

theorem upload_drops_content_type:
  "calls (upload c s now (Inr (Some (d\<lparr>mimetype := m1\<rparr>))))
     = [PutObject BUCKET_NAME (uniqueFilename now (filename d)) (fileStream d) None]
   \<and> store (upload c s now (Inr (Some (d\<lparr>mimetype := m1\<rparr>))))
     = store (upload c s now (Inr (Some (d\<lparr>mimetype := m2\<rparr>))))
   \<and> response (upload memClient emptyStore 1700000000000 (Inr (Some aTxt))) = send 200 (JObj
          [(''success'', JBool True),
           (''message'', JStr ''File uploaded successfully''),
           (''filename'', JStr ''1700000000000-a.txt''),
           (''originalName'', JStr ''a.txt''),
           (''mimetype'', JStr ''text/plain'')])
   \<and> calls (upload memClient emptyStore 1700000000000 (Inr (Some aTxt)))
     = [PutObject BUCKET_NAME ''1700000000000-a.txt'' [0x68, 0x69] None]
   \<and> statObject memClient (store (upload memClient emptyStore 1700000000000 (Inr (Some aTxt))))
        BUCKET_NAME ''1700000000000-a.txt''
     = Inr \<lparr>stat_size = 2, stat_metaData = []\<rparr>
   \<and> response (getFile memClient (store (upload memClient emptyStore 1700000000000 (Inr (Some aTxt))))
        ''1700000000000-a.txt'')
     = \<lparr>statusCode = 200,
        headers = [(''content-type'', ''application/octet-stream''), (''Content-Length'', ''2'')],
        payload = Stream [0x68, 0x69]\<rparr>"
proof -
  have a: "calls (upload c s now (Inr (Some (d\<lparr>mimetype := m1\<rparr>))))
     = [PutObject BUCKET_NAME (uniqueFilename now (filename d)) (fileStream d) None]"
    by (simp add: upload_def Let_def split: sum.splits)
  have b: "store (upload c s now (Inr (Some (d\<lparr>mimetype := m1\<rparr>))))
     = store (upload c s now (Inr (Some (d\<lparr>mimetype := m2\<rparr>))))"
    by (simp add: upload_def Let_def split: sum.splits)
  have key: "uniqueFilename 1700000000000 ''a.txt'' = ''1700000000000-a.txt''"
    by (simp add: uniqueFilename_def decimal_example)
  have up: "upload memClient emptyStore 1700000000000 (Inr (Some aTxt)) =
     \<lparr>response = send 200 (JObj
          [(''success'', JBool True),
           (''message'', JStr ''File uploaded successfully''),
           (''filename'', JStr ''1700000000000-a.txt''),
           (''originalName'', JStr ''a.txt''),
           (''mimetype'', JStr ''text/plain'')]),
      store = emptyStore\<lparr>objects :=
        [((BUCKET_NAME, ''1700000000000-a.txt''),
          \<lparr>content = [0x68, 0x69], objMetaData = [], lastModified = 0\<rparr>)]\<rparr>,
      calls = [PutObject BUCKET_NAME ''1700000000000-a.txt'' [0x68, 0x69] None]\<rparr>"
    by (simp add: upload_def Let_def key aTxt_def memClient_def memPutObject_def emptyStore_def)
  have two: "decimal (Suc (Suc 0)) = ''2''"
    by (subst decimal.simps) (simp add: digitChar_def)
  have st: "statObject memClient (store (upload memClient emptyStore 1700000000000 (Inr (Some aTxt))))
        BUCKET_NAME ''1700000000000-a.txt''
     = Inr \<lparr>stat_size = 2, stat_metaData = []\<rparr>"
    unfolding up by (simp add: memClient_def memStatObject_def emptyStore_def)
  have get: "response (getFile memClient (store (upload memClient emptyStore 1700000000000 (Inr (Some aTxt))))
        ''1700000000000-a.txt'')
     = \<lparr>statusCode = 200,
        headers = [(''content-type'', ''application/octet-stream''), (''Content-Length'', ''2'')],
        payload = Stream [0x68, 0x69]\<rparr>"
    unfolding up
    by (simp add: getFile_def memClient_def memGetObject_def memStatObject_def emptyStore_def
        contentDisposition_def orElse_def two)
  from a b up st get show ?thesis
    by simp
qed

subsection \<open>The download name\<close>

text \<open>
  What the handler does, for every client: it sets \<open>Content-Disposition\<close> exactly when
  both store calls return and the metadata that the stat call returned has a non-empty
  entry under the key \<open>x-amz-meta-original-name\<close>.
\<close>

lemma getFile_disposition_iff:
  "map_of (headers (response (getFile c s name))) ''Content-Disposition'' \<noteq> None \<longleftrightarrow>
     (\<exists>dataStream stat orig.
        getObject c s BUCKET_NAME name = Inr dataStream
        \<and> statObject c s BUCKET_NAME name = Inr stat
        \<and> map_of (stat_metaData stat) ''x-amz-meta-original-name'' = Some orig
        \<and> orig \<noteq> [])"
proof (cases "getObject c s BUCKET_NAME name")
  case (Inl err)
  then show ?thesis
    by (simp add: getFile_def getFileCatch_def send_def)
next
  case get: (Inr dataStream)
  show ?thesis
  proof (cases "statObject c s BUCKET_NAME name")
    case (Inl err)
    with get show ?thesis
      by (simp add: getFile_def getFileCatch_def send_def)
  next
    case stat: (Inr stat)
    show ?thesis
    proof (cases "map_of (stat_metaData stat) ''x-amz-meta-original-name''")
      case None
      with get stat show ?thesis
        by (simp add: getFile_def contentDisposition_def)
    next
      case (Some orig)
      with get stat show ?thesis
        by (simp add: getFile_def contentDisposition_def)
    qed
  qed
qed

text \<open>
  C10. Retrieve does not set \<open>Content-Disposition\<close> for an object that has an
  original name in its metadata. The stat call returns user metadata under keys without
  the prefix \<open>x-amz-meta-\<close>, so the original name is under \<open>original-name\<close>, and the
  handler looks for \<open>x-amz-meta-original-name\<close>: the object \<open>k\<close>, stored with the
  original name \<open>a.txt\<close>, is sent with a content type and a length and nothing else.
\<close>

theorem getFile_original_name_unused:
  "map_of (objects namedStore) (BUCKET_NAME, ''k'')
     = Some \<lparr>content = [1, 2, 3], objMetaData = [(''x-amz-meta-original-name'', ''a.txt'')],
             lastModified = 7\<rparr>
   \<and> statObject memClient namedStore BUCKET_NAME ''k''
       = Inr \<lparr>stat_size = 3, stat_metaData = [(''original-name'', ''a.txt'')]\<rparr>
   \<and> response (getFile memClient namedStore ''k'')
       = \<lparr>statusCode = 200,
          headers = [(''content-type'', ''application/octet-stream''), (''Content-Length'', ''3'')],
          payload = Stream [1, 2, 3]\<rparr>
   \<and> map_of (headers (response (getFile memClient namedStore ''k''))) ''Content-Disposition'' = None"
proof -
  have ob: "map_of (objects namedStore) (BUCKET_NAME, ''k'')
     = Some \<lparr>content = [1, 2, 3], objMetaData = [(''x-amz-meta-original-name'', ''a.txt'')],
             lastModified = 7\<rparr>"
    by (simp add: namedStore_def emptyStore_def)
  have get: "getObject memClient namedStore BUCKET_NAME ''k'' = Inr [1, 2, 3]"
    by (simp add: memClient_def memGetObject_def namedStore_def emptyStore_def)
  have stat: "statObject memClient namedStore BUCKET_NAME ''k''
       = Inr \<lparr>stat_size = 3, stat_metaData = [(''original-name'', ''a.txt'')]\<rparr>"
    by (simp add: memClient_def memStatObject_def namedStore_def emptyStore_def stripMetaPrefix_def)
  have three: "decimal 3 = ''3''"
    by (simp add: decimal.simps digitChar_def)
  have "response (getFile memClient namedStore ''k'')
       = \<lparr>statusCode = 200,
          headers = [(''content-type'', ''application/octet-stream''), (''Content-Length'', ''3'')],
          payload = Stream [1, 2, 3]\<rparr>"
    by (simp add: getFile_def get stat contentDisposition_def orElse_def three)
  with ob stat show ?thesis
    by simp
qed

subsection \<open>Pre-signed URLs\<close>

text \<open>
  C3, as stated, at the key \<open>a.txt\<close>: the reply of Download-URL is the URL alone; it
  has no expiry.
\<close>

theorem downloadUrl_no_expiry_counterexample:
  "response (downloadUrl memClient emptyStore ''a.txt'') = send 200 (JObj
      [(''url'', JStr ''http://localhost:9000/my-bucket/a.txt?X-Amz-Expires=300&X-Amz-Method=GET'')])
   \<and> getProp (JObj
      [(''url'', JStr ''http://localhost:9000/my-bucket/a.txt?X-Amz-Expires=300&X-Amz-Method=GET'')])
        ''expiresIn'' = JUndefined"
proof -
  have "decimal 300 = ''300''"
    by (simp add: decimal.simps digitChar_def)
  then show ?thesis
    by (simp add: downloadUrl_def memClient_def memPresignedGetObject_def memPresigned_def
        emptyStore_def BUCKET_NAME_def)
qed

text \<open>
  C3, amended. Whenever the store signs the URL, Upload-URL returns it together with the
  key and with \<open>expiresIn\<close> equal to the expiry it asked the store for: 86400 seconds
  in \<open>index.js\<close>, 300 seconds in the direct-upload server. Download-URL asks for 300
  seconds and returns the URL only.
\<close>

theorem presigned_expiry:
  "(presignedPutObject c s BUCKET_NAME name 86400 = Inr url1 \<longrightarrow>
      response (uploadUrl c s name) = send 200 (JObj
        [(''uploadUrl'', JStr url1), (''filename'', JStr name), (''expiresIn'', JNum 86400)]))
   \<and> calls (uploadUrl c s name) = [PresignedPutObject BUCKET_NAME name 86400]
   \<and> (presignedPutObject c s BUCKET_NAME name 300 = Inr url2 \<longrightarrow>
      response (uploadUrl_direct c s name) = send 200 (JObj
        [(''uploadUrl'', JStr url2), (''fileKey'', JStr name), (''expiresIn'', JNum 300)]))
   \<and> calls (uploadUrl_direct c s name) = [PresignedPutObject BUCKET_NAME name 300]
   \<and> (presignedGetObject c s BUCKET_NAME name 300 = Inr url3 \<longrightarrow>
      response (downloadUrl c s name) = send 200 (JObj [(''url'', JStr url3)]))
   \<and> calls (downloadUrl c s name) = [PresignedGetObject BUCKET_NAME name 300]"
  by (simp add: uploadUrl_def uploadUrl_direct_def downloadUrl_def Let_def split: sum.splits)

theorem presigned_expiry_witness:
  "presignedPutObject memClient emptyStore BUCKET_NAME ''a.txt'' 86400
      = Inr (memPresigned ''PUT'' BUCKET_NAME ''a.txt'' 86400)
   \<and> response (uploadUrl memClient emptyStore ''a.txt'') = send 200 (JObj
        [(''uploadUrl'', JStr (memPresigned ''PUT'' BUCKET_NAME ''a.txt'' 86400)),
         (''filename'', JStr ''a.txt''), (''expiresIn'', JNum 86400)])
   \<and> presignedPutObject memClient emptyStore BUCKET_NAME ''a.txt'' 300
      = Inr (memPresigned ''PUT'' BUCKET_NAME ''a.txt'' 300)
   \<and> response (uploadUrl_direct memClient emptyStore ''a.txt'') = send 200 (JObj
        [(''uploadUrl'', JStr (memPresigned ''PUT'' BUCKET_NAME ''a.txt'' 300)),
         (''fileKey'', JStr ''a.txt''), (''expiresIn'', JNum 300)])
   \<and> presignedGetObject memClient emptyStore BUCKET_NAME ''a.txt'' 300
      = Inr (memPresigned ''GET'' BUCKET_NAME ''a.txt'' 300)
   \<and> response (downloadUrl memClient emptyStore ''a.txt'') = send 200 (JObj
        [(''url'', JStr (memPresigned ''GET'' BUCKET_NAME ''a.txt'' 300))])"
  using presigned_expiry [of memClient emptyStore "''a.txt''"
      "memPresigned ''PUT'' BUCKET_NAME ''a.txt'' 86400"
      "memPresigned ''PUT'' BUCKET_NAME ''a.txt'' 300"
      "memPresigned ''GET'' BUCKET_NAME ''a.txt'' 300"]
  by (simp add: memClient_def memPresignedPutObject_def memPresignedGetObject_def emptyStore_def)

subsection \<open>Provisioning the bucket\<close>

text \<open>
  C4, as stated, at a store that refuses the bucket lookup: the streaming-proxy server
  goes on to listen, and the direct-upload server logs nothing and ends in an unhandled
  rejection.
\<close>

theorem provisioning_failure_counterexample:
  "bucketExists memClient unreachableStore BUCKET_NAME = Inl (Error (Some ''ECONNREFUSED''))
   \<and> process (start memClient unreachableStore (Inr ())) = Listening
   \<and> process (start_direct memClient unreachableStore (Inr ())) = Unhandled (Error (Some ''ECONNREFUSED''))
   \<and> console (ensureBucket_direct memClient unreachableStore) = []"
  by (simp add: start_def start_direct_def ensureBucket_def ensureBucket_direct_def Let_def
      memClient_def memBucketExists_def unreachableStore_def emptyStore_def)

text \<open>
  C4, amended. When the bucket lookup or the bucket creation throws, the streaming-proxy
  server (\<open>index.js\<close>) catches the error inside \<open>ensureBucket\<close>, logs it and goes on
  to listen; in the direct-upload server the error leaves \<open>ensureBucket\<close> and \<open>start\<close>
  unhandled, nothing is logged, and the server never listens.
\<close>

theorem provisioning_failure:
  assumes "bucketExists c s BUCKET_NAME = Inl err
           \<or> (bucketExists c s BUCKET_NAME = Inr False
               \<and> makeBucket c s BUCKET_NAME ''us-east-1'' = Inl err)"
  shows "thrown (ensureBucket c s) = None
         \<and> console (ensureBucket c s) = [ConsoleError ''Error with bucket:'' err]
         \<and> listened (start c s listen)
         \<and> process (start c s (Inr ())) = Listening
         \<and> startStore (start c s listen) = s
         \<and> thrown (ensureBucket_direct c s) = Some err
         \<and> console (ensureBucket_direct c s) = []
         \<and> process (start_direct c s listen) = Unhandled err
         \<and> \<not> listened (start_direct c s listen)
         \<and> startStore (start_direct c s listen) = s"
  using assms
  by (auto simp: start_def start_direct_def ensureBucket_def ensureBucket_direct_def Let_def
      split: sum.splits)

theorem provisioning_failure_witness:
  "bucketExists memClient unreachableStore BUCKET_NAME = Inl (Error (Some ''ECONNREFUSED''))
   \<and> console (ensureBucket memClient unreachableStore)
       = [ConsoleError ''Error with bucket:'' (Error (Some ''ECONNREFUSED''))]
   \<and> process (start memClient unreachableStore (Inr ())) = Listening
   \<and> process (start_direct memClient unreachableStore (Inr ())) = Unhandled (Error (Some ''ECONNREFUSED''))
   \<and> \<not> listened (start_direct memClient unreachableStore (Inr ()))
   \<and> bucketExists memClient noBucketStore BUCKET_NAME = Inr False
   \<and> makeBucket memClient noBucketStore BUCKET_NAME ''us-east-1'' = Inl (Error (Some ''AccessDenied''))
   \<and> process (start memClient noBucketStore (Inr ())) = Listening
   \<and> process (start_direct memClient noBucketStore (Inr ())) = Unhandled (Error (Some ''AccessDenied''))
   \<and> \<not> listened (start_direct memClient noBucketStore (Inr ()))"
proof -
  have h: "bucketExists memClient unreachableStore BUCKET_NAME = Inl (Error (Some ''ECONNREFUSED''))"
    by (simp add: memClient_def memBucketExists_def unreachableStore_def emptyStore_def)
  have e: "bucketExists memClient noBucketStore BUCKET_NAME = Inr False"
    by (simp add: memClient_def memBucketExists_def noBucketStore_def emptyStore_def)
  have k: "makeBucket memClient noBucketStore BUCKET_NAME ''us-east-1'' = Inl (Error (Some ''AccessDenied''))"
    by (simp add: memClient_def memMakeBucket_def noBucketStore_def emptyStore_def)
  show ?thesis
    using h e k provisioning_failure [OF disjI1 [OF h], of "Inr ()"]
      provisioning_failure [OF disjI2 [OF conjI [OF e k]], of "Inr ()"]
    by simp
qed

end
